theory Spec2Isabelle
  imports Main "HOL-Library.Word"
begin

section \<open>MqttManager: configuration buffers and reconnect backoff\<close>

text \<open>
  A shallow embedding of \<^verbatim>\<open>src/MqttManager.h\<close> and \<^verbatim>\<open>src/MqttManager.cpp\<close>.
  The class wraps an \<^verbatim>\<open>AsyncMqttClient\<close>; that client, the serial port and the
  millisecond clock are outside the repository. They appear here only through what
  the manager does to them: the calls it makes on the client (in order, with their
  arguments), the lines it prints, the connection status it reads and the clock values
  it reads.
\<close>

subsection \<open>Machine types\<close>

text \<open>
  \<^verbatim>\<open>unsigned long\<close> is 32 bits wide on the target board: subtraction and
  multiplication wrap, comparison is unsigned. \<^verbatim>\<open>int\<close> is 32 bits too; the
  code only stores and forwards it (read it with \<^term>\<open>sint\<close>).
\<close>

type_synonym u32 = "32 word"
type_synonym c_int = "32 word"
type_synonym u16 = "16 word"

subsection \<open>C strings and fixed-size character buffers\<close>

definition NUL :: char where
  "NUL = CHR 0x00"

text \<open>
  A \<^verbatim>\<open>const char *\<close> argument is modelled by the characters it points to; the
  C string it denotes ends before the first \<^term>\<open>NUL\<close> (or at the end of the list,
  where the terminator of a literal stands).
\<close>

definition c_chars :: "char list \<Rightarrow> char list" where
  "c_chars src = takeWhile (\<lambda>c. c \<noteq> NUL) src"

text \<open>
  \<^verbatim>\<open>strncpy(dst, src, n)\<close> writes exactly \<open>n\<close> characters to \<open>dst\<close>: the
  characters of the string \<open>src\<close>, then \<^term>\<open>NUL\<close>s up to \<open>n\<close>. When the string
  has \<open>n\<close> characters or more, the first \<open>n\<close> are written and no terminator.
  \<open>strncpy src n\<close> is the list of the \<open>n\<close> characters written. Both calls in the
  source pass \<^verbatim>\<open>sizeof\<close> of the destination array as \<open>n\<close>, so the list is the
  whole new content of the array.
\<close>

definition strncpy :: "char list \<Rightarrow> nat \<Rightarrow> char list" where
  "strncpy src n = take n (c_chars src @ replicate n NUL)"

text \<open>
  Reading a buffer as a C string is defined only when a terminator lies inside the
  buffer; otherwise the read runs past the end of the array (\<^term>\<open>None\<close>).
\<close>

definition c_str :: "char list \<Rightarrow> string option" where
  "c_str buf = (if NUL \<in> set buf then Some (c_chars buf) else None)"

subsection \<open>The calls made on the client and the serial output\<close>

text \<open>
  The client's \<^verbatim>\<open>setServer(const char* host, uint16_t port)\<close> has a 16-bit
  port parameter (the signature of the AsyncMqttClient library, which is not part of
  the repository): a call records the port the client receives.
\<close>

datatype client_call =
    C_onConnect
  | C_onDisconnect
  | C_setServer "char list" u16
  | C_setKeepAlive nat
  | C_setWill "char list" nat bool "char list"
  | C_connect
  | C_publish "char list" nat bool "char list"

datatype serial_out = Print "char list" | Println "char list"

subsection \<open>The object\<close>

text \<open>
  The members of \<^verbatim>\<open>class MqttManager\<close> (MqttManager.h, lines 20 to 28).
  \<^verbatim>\<open>mqttClient\<close> is represented by \<open>connected\<close>, the value its
  \<^verbatim>\<open>connected()\<close> returns, and \<open>client_calls\<close>, the calls made on it so far,
  oldest first. \<open>serial\<close> is what has been printed so far. The members
  \<^verbatim>\<open>offline_message\<close>, \<^verbatim>\<open>online_message\<close> and
  \<^verbatim>\<open>maxReconnectDelay\<close> are initialised in the class body and written by no
  method, so they are constants.
\<close>

record state =
  mqtt_server :: "char list"
  mqtt_port :: c_int
  lwt_topic :: "char list"
  lastReconnectAttempt :: u32
  reconnectDelay :: u32
  connected :: bool
  client_calls :: "client_call list"
  serial :: "serial_out list"

definition offline_message :: "char list" where
  "offline_message = ''off'' @ replicate 17 NUL"

definition online_message :: "char list" where
  "online_message = ''on'' @ replicate 18 NUL"

definition maxReconnectDelay :: u32 where
  "maxReconnectDelay = 32000"

definition println :: "char list \<Rightarrow> state \<Rightarrow> state" where
  "println str s = s\<lparr>serial := serial s @ [Println str]\<rparr>"

definition print :: "char list \<Rightarrow> state \<Rightarrow> state" where
  "print str s = s\<lparr>serial := serial s @ [Print str]\<rparr>"

definition client_call :: "client_call \<Rightarrow> state \<Rightarrow> state" where
  "client_call c s = s\<lparr>client_calls := client_calls s @ [c]\<rparr>"

subsection \<open>The methods\<close>

text \<open>
  The constructor (MqttManager.cpp, lines 109 to 121). The two character arrays have
  no initialiser, so their first contents are parameters. A new client is not
  connected. \<open>C_onConnect\<close> and \<open>C_onDisconnect\<close> are the two registrations
  of a callback.
\<close>

definition MqttManager :: "char list \<Rightarrow> char list \<Rightarrow> state" where
  "MqttManager server0 topic0 =
     client_call C_onDisconnect
       (client_call C_onConnect
          \<lparr>mqtt_server = server0, mqtt_port = 1883, lwt_topic = topic0,
           lastReconnectAttempt = 0, reconnectDelay = 1000,
           connected = False, client_calls = [], serial = []\<rparr>)"

text \<open>\<^verbatim>\<open>setServer\<close> and \<^verbatim>\<open>setLwt\<close> (lines 124 to 132).\<close>

definition setServer :: "char list \<Rightarrow> c_int \<Rightarrow> state \<Rightarrow> state" where
  "setServer server port s =
     s\<lparr>mqtt_server := strncpy server 16, mqtt_port := port\<rparr>"

definition setLwt :: "char list \<Rightarrow> state \<Rightarrow> state" where
  "setLwt topic s = s\<lparr>lwt_topic := strncpy topic 64\<rparr>"

text \<open>
  \<^verbatim>\<open>connect()\<close> (lines 135 to 146). The \<^verbatim>\<open>int\<close> member
  \<^verbatim>\<open>mqtt_port\<close> is converted to the 16-bit parameter at the call
  (\<^term>\<open>ucast\<close>: the value modulo 65536).
\<close>

definition connect :: "state \<Rightarrow> state" where
  "connect s =
     (if \<not> connected s then
        let s1 = println ''Connecting to MQTT server...'' s;
            s2 = client_call (C_setServer (mqtt_server s1) (ucast (mqtt_port s1))) s1;
            s3 = client_call (C_setKeepAlive 60) s2;
            s4 = client_call (C_setWill (lwt_topic s3) 0 True offline_message) s3
        in client_call C_connect s4
      else s)"

text \<open>
  \<^verbatim>\<open>reconnect()\<close> (lines 149 to 161) reads the clock twice: \<open>now\<close> is the
  value of \<^verbatim>\<open>millis()\<close> in the condition, \<open>now'\<close> the value stored
  afterwards. The methods that call \<^verbatim>\<open>reconnect()\<close> take the two values too.
\<close>

definition reconnect :: "u32 \<Rightarrow> u32 \<Rightarrow> state \<Rightarrow> state" where
  "reconnect now now' s =
     (if \<not> connected s \<and> reconnectDelay s \<le> now - lastReconnectAttempt s then
        let s1 = println ''Attempting MQTT reconnect...'' s;
            s2 = connect s1;
            s3 = s2\<lparr>lastReconnectAttempt := now'\<rparr>
        in if reconnectDelay s3 < maxReconnectDelay
           then s3\<lparr>reconnectDelay := reconnectDelay s3 * 2\<rparr>
           else s3
      else s)"

text \<open>\<^verbatim>\<open>sendMessage\<close> (lines 181 to 192).\<close>

definition sendMessage :: "char list \<Rightarrow> char list \<Rightarrow> u32 \<Rightarrow> u32 \<Rightarrow> state \<Rightarrow> state" where
  "sendMessage topic message now now' s =
     (if connected s then
        let s1 = client_call (C_publish topic 0 True message) s;
            s2 = print ''MQTT message sent: '' s1;
            s3 = print topic s2;
            s4 = print '' -> '' s3
        in println message s4
      else reconnect now now' (println ''MQTT not connected!'' s))"

text \<open>
  The two callbacks (lines 164 to 178). Their bodies use neither the pointer
  \<^verbatim>\<open>client\<close>, which is left out, nor \<^verbatim>\<open>sessionPresent\<close> nor the
  \<^verbatim>\<open>reason\<close>, an enumerator taken as its number.
\<close>

definition onConnect :: "bool \<Rightarrow> u32 \<Rightarrow> u32 \<Rightarrow> state \<Rightarrow> state" where
  "onConnect sessionPresent now now' s =
     (let s1 = println ''Connected to MQTT broker'' s;
          s2 = sendMessage (lwt_topic s1) online_message now now' s1
      in s2\<lparr>reconnectDelay := 1000\<rparr>)"

definition onDisconnect :: "nat \<Rightarrow> u32 \<Rightarrow> u32 \<Rightarrow> state \<Rightarrow> state" where
  "onDisconnect reason now now' s =
     reconnect now now' (println ''Disconnected from MQTT broker'' s)"

text \<open>\<^verbatim>\<open>isConnected()\<close> (lines 195 to 197).\<close>

definition isConnected :: "state \<Rightarrow> bool" where
  "isConnected s = connected s"

subsection \<open>Sequences of operations\<close>

text \<open>
  One step is a call of a public method, with the clock values it reads, or a change
  of the client's connection status, which the client makes on its own.
\<close>

datatype op =
    SetServer "char list" c_int
  | SetLwt "char list"
  | Connect
  | Reconnect u32 u32
  | SendMessage "char list" "char list" u32 u32
  | IsConnected
  | OnConnect bool u32 u32
  | OnDisconnect nat u32 u32
  | ClientStatus bool

fun step :: "state \<Rightarrow> op \<Rightarrow> state" where
  "step s (SetServer server port) = setServer server port s"
| "step s (SetLwt topic) = setLwt topic s"
| "step s Connect = connect s"
| "step s (Reconnect now now') = reconnect now now' s"
| "step s (SendMessage topic message now now') = sendMessage topic message now now' s"
| "step s IsConnected = (let b = isConnected s in s)"
| "step s (OnConnect sessionPresent now now') = onConnect sessionPresent now now' s"
| "step s (OnDisconnect reason now now') = onDisconnect reason now now' s"
| "step s (ClientStatus b) = s\<lparr>connected := b\<rparr>"

definition run :: "state \<Rightarrow> op list \<Rightarrow> state" where
  "run s os = foldl step s os"

subsection \<open>Notions used to state the properties\<close>

text \<open>What one call added to the client's call list and to the serial output.\<close>

definition calls_since :: "state \<Rightarrow> state \<Rightarrow> client_call list" where
  "calls_since s s' = drop (length (client_calls s)) (client_calls s')"

definition printed_since :: "state \<Rightarrow> state \<Rightarrow> serial_out list" where
  "printed_since s s' = drop (length (serial s)) (serial s')"

text \<open>The retry state: the time of the last attempt and the current delay.\<close>

definition retry :: "state \<Rightarrow> u32 \<times> u32" where
  "retry s = (lastReconnectAttempt s, reconnectDelay s)"

text \<open>
  A sequence of calls of \<^verbatim>\<open>reconnect()\<close>, each given by the two clock values
  it reads. \<open>attempts s ts\<close> says that every call of the sequence is an attempt: it
  finds the client not connected and the delay elapsed, which is the condition of
  \<^verbatim>\<open>reconnect()\<close> (MqttManager.cpp, line 151). The attempts fail, since the
  client never becomes connected in between.
\<close>

fun reconnects :: "state \<Rightarrow> (u32 \<times> u32) list \<Rightarrow> state" where
  "reconnects s [] = s"
| "reconnects s ((now, now') # ts) = reconnects (reconnect now now' s) ts"

fun attempts :: "state \<Rightarrow> (u32 \<times> u32) list \<Rightarrow> bool" where
  "attempts s [] = True"
| "attempts s ((now, now') # ts) =
     (\<not> connected s \<and> reconnectDelay s \<le> now - lastReconnectAttempt s \<and>
      attempts (reconnect now now' s) ts)"

text \<open>
  The object of the sketch after its \<^verbatim>\<open>setup()\<close> (the main file of the
  repository): a global \<^verbatim>\<open>MqttManager\<close>, whose arrays are zero-filled before
  the constructor runs, then \<^verbatim>\<open>setServer\<close>, \<^verbatim>\<open>setLwt\<close> and
  \<^verbatim>\<open>connect\<close> with the values of the sketch.
\<close>

definition sketch :: state where
  "sketch = connect (setLwt ''korngva/sound_monitor/device_status''
              (setServer ''192.168.1.113'' 1883
                 (MqttManager (replicate 16 NUL) (replicate 64 NUL))))"

text \<open>The values the delay takes.\<close>

definition delay_values :: "u32 set" where
  "delay_values = {1000, 2000, 4000, 8000, 16000, 32000}"

section \<open>Basic facts\<close>

lemmas io_defs = println_def print_def client_call_def

lemma connect_eq:
  "connect s =
     (if connected s then s
      else s\<lparr>client_calls := client_calls s @
                [C_setServer (mqtt_server s) (ucast (mqtt_port s)), C_setKeepAlive 60,
                 C_setWill (lwt_topic s) 0 True offline_message, C_connect],
             serial := serial s @ [Println ''Connecting to MQTT server...'']\<rparr>)"
  by (simp add: connect_def io_defs Let_def)

lemma reconnect_eq:
  "reconnect now now' s =
     (if \<not> connected s \<and> reconnectDelay s \<le> now - lastReconnectAttempt s then
        s\<lparr>client_calls := client_calls s @
                [C_setServer (mqtt_server s) (ucast (mqtt_port s)), C_setKeepAlive 60,
                 C_setWill (lwt_topic s) 0 True offline_message, C_connect],
          serial := serial s @ [Println ''Attempting MQTT reconnect...'',
                                Println ''Connecting to MQTT server...''],
          lastReconnectAttempt := now',
          reconnectDelay := (if reconnectDelay s < maxReconnectDelay
                             then reconnectDelay s * 2 else reconnectDelay s)\<rparr>
      else s)"
  by (simp add: reconnect_def connect_eq io_defs Let_def)

lemma c_str_off: "c_str offline_message = Some ''off''"
  by (simp add: c_str_def c_chars_def offline_message_def NUL_def)

lemma c_str_on: "c_str online_message = Some ''on''"
  by (simp add: c_str_def c_chars_def online_message_def NUL_def)

lemma strncpy_sketch_server:
  "strncpy ''192.168.1.113'' 16 = ''192.168.1.113'' @ replicate 3 NUL"
  by (simp add: strncpy_def c_chars_def NUL_def numeral_eq_Suc)

lemma strncpy_sketch_topic:
  "strncpy ''korngva/sound_monitor/device_status'' 64
     = ''korngva/sound_monitor/device_status'' @ replicate 29 NUL"
  by (simp add: strncpy_def c_chars_def NUL_def numeral_eq_Suc)

lemma sketch_eq:
  "sketch = \<lparr>mqtt_server = ''192.168.1.113'' @ replicate 3 NUL, mqtt_port = 1883,
      lwt_topic = ''korngva/sound_monitor/device_status'' @ replicate 29 NUL,
      lastReconnectAttempt = 0, reconnectDelay = 1000, connected = False,
      client_calls = [C_onConnect, C_onDisconnect,
        C_setServer (''192.168.1.113'' @ replicate 3 NUL) 1883, C_setKeepAlive 60,
        C_setWill (''korngva/sound_monitor/device_status'' @ replicate 29 NUL) 0 True
          offline_message,
        C_connect],
      serial = [Println ''Connecting to MQTT server...'']\<rparr>"
  by (simp add: sketch_def connect_eq setLwt_def setServer_def MqttManager_def client_call_def
        strncpy_sketch_server strncpy_sketch_topic)

lemmas eval_defs = sketch_eq reconnect_eq connect_eq sendMessage_def onConnect_def
  onDisconnect_def io_defs Let_def calls_since_def printed_since_def maxReconnectDelay_def
  MqttManager_def run_def

lemmas str_defs = setServer_def setLwt_def strncpy_def c_chars_def c_str_def NUL_def

subsection \<open>The port the client receives\<close>

lemma uint_port_conversion: "uint (ucast (p :: c_int) :: u16) = sint p mod 65536"
proof -
  have "uint (ucast p :: u16) = take_bit 16 (uint p)"
    by (simp add: unsigned_ucast_eq)
  also have "\<dots> = take_bit 16 (take_bit 32 (sint p))"
    by (simp add: uint_sint)
  also have "\<dots> = take_bit 16 (sint p)"
    by (simp add: take_bit_take_bit)
  also have "\<dots> = sint p mod 65536"
    by (simp add: take_bit_eq_mod)
  finally show ?thesis .
qed

subsection \<open>What strncpy leaves in the buffer\<close>

lemma c_chars_no_NUL: "NUL \<notin> set (c_chars src)"
  unfolding c_chars_def by (auto dest: set_takeWhileD)

lemma length_strncpy: "length (strncpy src n) = n"
  by (simp add: strncpy_def)

lemma strncpy_long:
  assumes "n \<le> length (c_chars src)"
  shows "strncpy src n = take n (c_chars src)" and "NUL \<notin> set (strncpy src n)"
    and "c_str (strncpy src n) = None"
proof -
  show eq: "strncpy src n = take n (c_chars src)"
    using assms by (simp add: strncpy_def)
  have "set (take n (c_chars src)) \<subseteq> set (c_chars src)" by (rule set_take_subset)
  then show no: "NUL \<notin> set (strncpy src n)"
    using c_chars_no_NUL [of src] eq by auto
  then show "c_str (strncpy src n) = None" by (simp add: c_str_def)
qed

lemma strncpy_short:
  assumes "length (c_chars src) < n"
  shows "strncpy src n = c_chars src @ replicate (n - length (c_chars src)) NUL"
    and "c_str (strncpy src n) = Some (c_chars src)"
proof -
  show eq: "strncpy src n = c_chars src @ replicate (n - length (c_chars src)) NUL"
    using assms by (simp add: strncpy_def)
  have "NUL \<in> set (strncpy src n)" using assms unfolding eq by simp
  moreover have "c_chars (strncpy src n) = c_chars src"
    unfolding eq using c_chars_no_NUL [of src] assms
    by (cases "n - length (c_chars src)")
       (simp_all add: c_chars_def takeWhile_append2 takeWhile_tail)
  ultimately show "c_str (strncpy src n) = Some (c_chars src)" by (simp add: c_str_def)
qed

subsection \<open>The delay stays among its six values\<close>

lemma reconnect_delay_values:
  "reconnectDelay s \<in> delay_values \<Longrightarrow> reconnectDelay (reconnect now now' s) \<in> delay_values"
  by (auto simp add: reconnect_eq delay_values_def maxReconnectDelay_def)

lemma step_delay_values:
  "reconnectDelay s \<in> delay_values \<Longrightarrow> reconnectDelay (step s x) \<in> delay_values"
proof (cases x)
  case (Reconnect now now')
  assume "reconnectDelay s \<in> delay_values"
  then show ?thesis using Reconnect by (simp add: reconnect_delay_values)
next
  case (SendMessage topic message now now')
  assume "reconnectDelay s \<in> delay_values"
  then have a: "reconnectDelay (println ''MQTT not connected!'' s) \<in> delay_values"
    and b: "connected s \<Longrightarrow>
              reconnectDelay (sendMessage topic message now now' s) \<in> delay_values"
    by (simp_all add: sendMessage_def io_defs Let_def)
  show ?thesis
  proof (cases "connected s")
    case True
    then show ?thesis using SendMessage b by simp
  next
    case False
    then show ?thesis using SendMessage a
      by (simp add: sendMessage_def reconnect_delay_values)
  qed
next
  case (OnConnect b now now')
  then show ?thesis by (simp add: onConnect_def delay_values_def Let_def)
next
  case (OnDisconnect r now now')
  assume "reconnectDelay s \<in> delay_values"
  then have "reconnectDelay (println ''Disconnected from MQTT broker'' s) \<in> delay_values"
    by (simp add: println_def)
  then show ?thesis using OnDisconnect
    by (simp add: onDisconnect_def reconnect_delay_values)
qed (simp_all add: setServer_def setLwt_def connect_eq)

lemma run_delay_values:
  "reconnectDelay s \<in> delay_values \<Longrightarrow> reconnectDelay (run s os) \<in> delay_values"
  unfolding run_def
  by (induction os arbitrary: s) (simp_all add: step_delay_values)

subsection \<open>One attempt doubles the delay up to the cap\<close>

lemma pow2_below_32: "(1000::nat) * 2 ^ k < 32000 \<Longrightarrow> k \<le> 4"
proof -
  assume "(1000::nat) * 2 ^ k < 32000"
  then have "(2::nat) ^ k < 2 ^ 5" by simp
  then have "k < 5"
    by (simp only: power_strict_increasing_iff [of 2] one_less_numeral_iff semiring_norm)
  then show ?thesis by simp
qed

lemma min_step:
  "min (1000 * 2 ^ Suc k) (32000::nat) =
     (if min (1000 * 2 ^ k) (32000::nat) < 32000 then 2 * min (1000 * 2 ^ k) 32000
      else min (1000 * 2 ^ k) 32000)"
proof (cases "(1000::nat) * 2 ^ k < 32000")
  case True
  then have "k \<le> 4" by (rule pow2_below_32)
  then have "(2::nat) ^ k \<le> 2 ^ 4"
    by (simp only: power_increasing_iff [of 2] one_less_numeral_iff semiring_norm)
  then have "(1000::nat) * 2 ^ Suc k \<le> 32000" by simp
  with True show ?thesis by (simp add: min_def)
next
  case False
  then show ?thesis by (simp add: min_def)
qed

lemma reconnect_attempt_delay:
  assumes gate: "\<not> connected s" "reconnectDelay s \<le> now - lastReconnectAttempt s"
    and d: "unat (reconnectDelay s) = min (1000 * 2 ^ k) 32000"
  shows "unat (reconnectDelay (reconnect now now' s)) = min (1000 * 2 ^ Suc k) 32000"
proof -
  have lt: "reconnectDelay s < maxReconnectDelay \<longleftrightarrow> unat (reconnectDelay s) < 32000"
    by (simp add: maxReconnectDelay_def word_less_nat_alt)
  have le: "unat (reconnectDelay s) \<le> 32000" using d by simp
  have dbl: "unat (reconnectDelay s * 2) = 2 * unat (reconnectDelay s)"
    using le by (simp add: unat_word_ariths)
  have "unat (reconnectDelay (reconnect now now' s)) =
      (if unat (reconnectDelay s) < 32000 then 2 * unat (reconnectDelay s)
       else unat (reconnectDelay s))"
    using gate by (simp add: reconnect_eq lt dbl)
  also have "\<dots> = min (1000 * 2 ^ Suc k) 32000"
    unfolding d by (rule min_step [symmetric])
  finally show ?thesis .
qed

lemma reconnects_delay:
  "attempts s ts \<Longrightarrow> unat (reconnectDelay s) = min (1000 * 2 ^ k) 32000 \<Longrightarrow>
     unat (reconnectDelay (reconnects s ts)) = min (1000 * 2 ^ (k + length ts)) 32000"
proof (induction s ts arbitrary: k rule: reconnects.induct)
  case (1 s)
  then show ?case by simp
next
  case (2 s now now' ts)
  from "2.prems" have gate: "\<not> connected s" "reconnectDelay s \<le> now - lastReconnectAttempt s"
    and rest: "attempts (reconnect now now' s) ts" by simp_all
  have "unat (reconnectDelay (reconnect now now' s)) = min (1000 * 2 ^ Suc k) 32000"
    using gate "2.prems"(2) by (rule reconnect_attempt_delay)
  with rest have "unat (reconnectDelay (reconnects (reconnect now now' s) ts))
      = min (1000 * 2 ^ (Suc k + length ts)) 32000"
    by (rule "2.IH")
  then show ?case by simp
qed

section \<open>Properties\<close>

text \<open>
  C1. Starting from the constructed object, after \<open>N\<close> consecutive failed attempts
  of \<^verbatim>\<open>reconnect()\<close> the delay is \<open>min (1000 * 2 ^ N) 32000\<close> milliseconds:
  1000 at first, doubled by each attempt while below 32000, never above 32000.
\<close>

theorem backoff_after_failed_attempts:
  "attempts (MqttManager server0 topic0) ts \<Longrightarrow>
     unat (reconnectDelay (reconnects (MqttManager server0 topic0) ts))
       = min (1000 * 2 ^ length ts) 32000"
proof -
  assume a: "attempts (MqttManager server0 topic0) ts"
  have "unat (reconnectDelay (MqttManager server0 topic0)) = min (1000 * 2 ^ 0) 32000"
    by (simp add: MqttManager_def client_call_def)
  with a have "unat (reconnectDelay (reconnects (MqttManager server0 topic0) ts))
       = min (1000 * 2 ^ (0 + length ts)) 32000"
    by (rule reconnects_delay)
  then show ?thesis by simp
qed

text \<open>Seven attempts, each made as soon as the delay has elapsed: the cap is reached.\<close>

theorem backoff_after_failed_attempts_witness:
  "attempts (MqttManager [] [])
     [(1000, 1001), (3001, 3002), (7002, 7003), (15003, 15004), (31004, 31005),
      (63005, 63006), (95006, 95007)] \<and>
   unat (reconnectDelay (reconnects (MqttManager [] [])
     [(1000, 1001), (3001, 3002), (7002, 7003), (15003, 15004), (31004, 31005),
      (63005, 63006), (95006, 95007)])) = 32000 \<and>
   min (1000 * 2 ^ length [(1000 :: u32, 1001 :: u32), (3001, 3002), (7002, 7003),
      (15003, 15004), (31004, 31005), (63005, 63006), (95006, 95007)]) 32000 = (32000 :: nat)"
  using backoff_after_failed_attempts [of "[]" "[]"
     "[(1000, 1001), (3001, 3002), (7002, 7003), (15003, 15004), (31004, 31005),
      (63005, 63006), (95006, 95007)]"]
  by (simp add: eval_defs)

text \<open>
  C2. In every state reached from the constructed object by any sequence of
  \<^verbatim>\<open>setServer\<close>, \<^verbatim>\<open>setLwt\<close>, \<^verbatim>\<open>connect\<close>, \<^verbatim>\<open>reconnect\<close>,
  \<^verbatim>\<open>sendMessage\<close>, \<^verbatim>\<open>isConnected\<close>, \<^verbatim>\<open>onConnect\<close> and
  \<^verbatim>\<open>onDisconnect\<close> (and of changes of the client's connection status), the delay
  lies between 1000 and 32000 milliseconds.
\<close>

theorem delay_invariant:
  "1000 \<le> reconnectDelay (run (MqttManager server0 topic0) os) \<and>
   reconnectDelay (run (MqttManager server0 topic0) os) \<le> 32000"
proof -
  have "reconnectDelay (MqttManager server0 topic0) \<in> delay_values"
    by (simp add: MqttManager_def client_call_def delay_values_def)
  then have "reconnectDelay (run (MqttManager server0 topic0) os) \<in> delay_values"
    by (rule run_delay_values)
  then show ?thesis
    by (auto simp add: delay_values_def)
qed

theorem delay_invariant_witness:
  "reconnectDelay (run (MqttManager [] []) [Reconnect 1000 1001, Reconnect 3001 3002]) = 4000 \<and>
   (1000::u32) \<le> 4000 \<and> (4000::u32) \<le> 32000"
  using delay_invariant [of "[]" "[]" "[Reconnect 1000 1001, Reconnect 3001 3002]"]
  by (simp add: eval_defs)

text \<open>
  C3. \<^verbatim>\<open>onConnect\<close> sets the delay to exactly 1000 milliseconds whatever it was
  before. The client invokes this callback when the connection is established, that is,
  when it reports connected; then \<^verbatim>\<open>onConnect\<close> publishes the online payload
  (the string "on") to the stored LWT topic with QoS 0 and retain set, and makes no
  other call on the client.
\<close>

theorem onConnect_publishes_and_resets:
  "reconnectDelay (onConnect sessionPresent now now' s) = 1000 \<and>
   c_str online_message = Some ''on'' \<and>
   (connected s \<longrightarrow>
      onConnect sessionPresent now now' s
        = s\<lparr>client_calls := client_calls s @ [C_publish (lwt_topic s) 0 True online_message],
             serial := serial s @ [Println ''Connected to MQTT broker'',
                                   Print ''MQTT message sent: '', Print (lwt_topic s),
                                   Print '' -> '', Println online_message],
             reconnectDelay := 1000\<rparr>)"
  by (simp add: onConnect_def sendMessage_def io_defs Let_def c_str_on)

theorem onConnect_publishes_and_resets_witness:
  "connected (reconnect 1000 1001 sketch\<lparr>connected := True\<rparr>) \<and>
   reconnectDelay (reconnect 1000 1001 sketch\<lparr>connected := True\<rparr>) = 2000 \<and>
   reconnectDelay
     (onConnect False 1500 1501 (reconnect 1000 1001 sketch\<lparr>connected := True\<rparr>)) = 1000 \<and>
   calls_since (reconnect 1000 1001 sketch\<lparr>connected := True\<rparr>)
       (onConnect False 1500 1501 (reconnect 1000 1001 sketch\<lparr>connected := True\<rparr>))
     = [C_publish (''korngva/sound_monitor/device_status'' @ replicate 29 NUL) 0 True
          online_message]"
  using onConnect_publishes_and_resets
    [of False 1500 1501 "reconnect 1000 1001 sketch\<lparr>connected := True\<rparr>"]
  by (simp add: eval_defs)

text \<open>
  C4. When the client is not connected and the time elapsed since
  \<open>lastReconnectAttempt\<close> is strictly less than \<open>reconnectDelay\<close>,
  \<^verbatim>\<open>reconnect()\<close> changes nothing: no call on the client, the delay and the time
  of the last attempt as before. The same holds for the call made from
  \<^verbatim>\<open>onDisconnect\<close>, which only prints its line.
\<close>

theorem reconnect_within_backoff:
  "\<not> connected s \<Longrightarrow> now - lastReconnectAttempt s < reconnectDelay s \<Longrightarrow>
     reconnect now now' s = s \<and>
     onDisconnect reason now now' s = println ''Disconnected from MQTT broker'' s \<and>
     calls_since s (reconnect now now' s) = [] \<and>
     calls_since s (onDisconnect reason now now' s) = [] \<and>
     reconnectDelay (onDisconnect reason now now' s) = reconnectDelay s \<and>
     lastReconnectAttempt (onDisconnect reason now now' s) = lastReconnectAttempt s"
  by (simp add: reconnect_def onDisconnect_def println_def calls_since_def not_le [symmetric])

theorem reconnect_within_backoff_witness:
  "\<not> connected (reconnect 1000 1001 sketch) \<and>
   2000 - lastReconnectAttempt (reconnect 1000 1001 sketch)
     < reconnectDelay (reconnect 1000 1001 sketch) \<and>
   reconnect 2000 2001 (reconnect 1000 1001 sketch) = reconnect 1000 1001 sketch \<and>
   calls_since (reconnect 1000 1001 sketch)
     (onDisconnect 0 2000 2001 (reconnect 1000 1001 sketch)) = []"
  using reconnect_within_backoff [of "reconnect 1000 1001 sketch" 2000 2001 0]
  by (simp add: eval_defs)

text \<open>
  C5. In every state in which the client reports connected, \<^verbatim>\<open>reconnect()\<close>
  makes no call on the client and changes neither \<open>reconnectDelay\<close> nor
  \<open>lastReconnectAttempt\<close> nor anything else: it returns the state it was given.
\<close>

theorem reconnect_connected_noop:
  "connected s \<Longrightarrow> reconnect now now' s = s"
  by (simp add: reconnect_def)

theorem reconnect_connected_noop_witness:
  "connected (step sketch (ClientStatus True)) \<and>
   reconnect 5000 5001 (step sketch (ClientStatus True)) = step sketch (ClientStatus True)"
  using reconnect_connected_noop [of "step sketch (ClientStatus True)" 5000 5001]
  by (simp add: eval_defs)

text \<open>
  C6. While the client is not connected, \<^verbatim>\<open>sendMessage\<close> never calls the
  client's publish: it prints that MQTT is not connected and then does what one call of
  \<^verbatim>\<open>reconnect()\<close> does, nothing more. While the client is connected, it
  publishes the payload to the topic with QoS 0 and retain set, and prints what it sent.
\<close>

theorem sendMessage_publishes_or_reconnects:
  "(\<not> connected s \<longrightarrow>
      sendMessage topic message now now' s
        = reconnect now now' (println ''MQTT not connected!'' s) \<and>
      (\<forall>t q r m. C_publish t q r m
          \<notin> set (calls_since s (sendMessage topic message now now' s))) \<and>
      printed_since s (sendMessage topic message now now' s)
        = Println ''MQTT not connected!'' # printed_since s (reconnect now now' s)) \<and>
   (connected s \<longrightarrow>
      sendMessage topic message now now' s
        = s\<lparr>client_calls := client_calls s @ [C_publish topic 0 True message],
             serial := serial s @ [Print ''MQTT message sent: '', Print topic,
                                   Print '' -> '', Println message]\<rparr>)"
  by (auto simp add: sendMessage_def reconnect_eq io_defs Let_def calls_since_def
        printed_since_def)

theorem sendMessage_publishes_or_reconnects_witness:
  "\<not> connected sketch \<and>
   sendMessage ''t'' ''m'' 1000 1001 sketch
     = reconnect 1000 1001 (println ''MQTT not connected!'' sketch) \<and>
   printed_since sketch (sendMessage ''t'' ''m'' 1000 1001 sketch)
     = [Println ''MQTT not connected!'', Println ''Attempting MQTT reconnect...'',
        Println ''Connecting to MQTT server...''] \<and>
   connected (sketch\<lparr>connected := True\<rparr>) \<and>
   calls_since (sketch\<lparr>connected := True\<rparr>)
       (sendMessage ''t'' ''m'' 1000 1001 (sketch\<lparr>connected := True\<rparr>))
     = [C_publish ''t'' 0 True ''m'']"
  using sendMessage_publishes_or_reconnects [of sketch "''t''" "''m''" 1000 1001]
    sendMessage_publishes_or_reconnects
      [of "sketch\<lparr>connected := True\<rparr>" "''t''" "''m''" 1000 1001]
  by (simp add: eval_defs)

text \<open>
  C7. When the client is not connected, \<^verbatim>\<open>connect()\<close> gives the client the
  stored server and the stored port converted to the client's 16-bit port parameter
  (the stored port modulo 65536, hence the stored port itself when it lies between 0
  and 65535), a keep-alive of 60 seconds and a will on the stored LWT topic with QoS 0,
  retain set and the offline payload (the string "off"), and then asks it to connect, in
  this order. When the client is connected, \<^verbatim>\<open>connect()\<close> does nothing.
\<close>

theorem connect_configures_client:
  "(\<not> connected s \<longrightarrow>
      connect s = s\<lparr>client_calls := client_calls s @
                [C_setServer (mqtt_server s) (ucast (mqtt_port s)), C_setKeepAlive 60,
                 C_setWill (lwt_topic s) 0 True offline_message, C_connect],
             serial := serial s @ [Println ''Connecting to MQTT server...'']\<rparr>) \<and>
   uint (ucast (mqtt_port s) :: u16) = sint (mqtt_port s) mod 65536 \<and>
   (0 \<le> sint (mqtt_port s) \<and> sint (mqtt_port s) \<le> 65535 \<longrightarrow>
      uint (ucast (mqtt_port s) :: u16) = sint (mqtt_port s)) \<and>
   (connected s \<longrightarrow> connect s = s) \<and>
   c_str offline_message = Some ''off''"
  by (simp add: connect_eq c_str_off uint_port_conversion)

text \<open>
  The object of the sketch, not connected, with its port 1883 in range; the same
  object once the client reports connected.
\<close>

theorem connect_configures_client_witness:
  "\<not> connected sketch \<and>
   0 \<le> sint (mqtt_port sketch) \<and> sint (mqtt_port sketch) \<le> 65535 \<and>
   calls_since sketch (connect sketch)
     = [C_setServer (''192.168.1.113'' @ replicate 3 NUL) 1883, C_setKeepAlive 60,
        C_setWill (''korngva/sound_monitor/device_status'' @ replicate 29 NUL) 0 True
          offline_message,
        C_connect] \<and>
   uint (1883 :: u16) = sint (mqtt_port sketch) \<and>
   connected (sketch\<lparr>connected := True\<rparr>) \<and>
   connect (sketch\<lparr>connected := True\<rparr>) = sketch\<lparr>connected := True\<rparr>"
  using connect_configures_client [of sketch]
    connect_configures_client [of "sketch\<lparr>connected := True\<rparr>"]
  by (simp add: eval_defs)

text \<open>
  With the port 70000 stored, the client is given the port 4464, not the stored port.
\<close>

theorem connect_port_counterexample:
  "\<not> connected (setServer ''192.168.1.113'' 70000 sketch) \<and>
   sint (mqtt_port (setServer ''192.168.1.113'' 70000 sketch)) = 70000 \<and>
   calls_since (setServer ''192.168.1.113'' 70000 sketch)
       (connect (setServer ''192.168.1.113'' 70000 sketch))
     = [C_setServer (''192.168.1.113'' @ replicate 3 NUL) 4464, C_setKeepAlive 60,
        C_setWill (''korngva/sound_monitor/device_status'' @ replicate 29 NUL) 0 True
          offline_message,
        C_connect] \<and>
   uint (4464 :: u16) \<noteq> sint (mqtt_port (setServer ''192.168.1.113'' 70000 sketch))"
  by (simp add: eval_defs setServer_def strncpy_sketch_server)

text \<open>
  C8. \<^verbatim>\<open>connect()\<close> leaves \<open>reconnectDelay\<close> and \<open>lastReconnectAttempt\<close>
  as they are, whether it asks for a connection or not, and so do \<^verbatim>\<open>setServer\<close>
  and \<^verbatim>\<open>setLwt\<close>. The two members change only in \<^verbatim>\<open>reconnect()\<close>,
  which on an attempt stores the clock value and doubles the delay below the cap, and in
  \<^verbatim>\<open>onConnect\<close>, which sets the delay to 1000: \<^verbatim>\<open>sendMessage\<close>,
  \<^verbatim>\<open>onDisconnect\<close> and \<^verbatim>\<open>onConnect\<close> change them otherwise only through
  the \<^verbatim>\<open>reconnect()\<close> they call.
\<close>

theorem retry_state_frame:
  "retry (connect s) = retry s \<and>
   retry (setServer server port s) = retry s \<and>
   retry (setLwt topic s) = retry s \<and>
   retry (reconnect now now' s) =
     (if \<not> connected s \<and> reconnectDelay s \<le> now - lastReconnectAttempt s
      then (now', if reconnectDelay s < maxReconnectDelay then reconnectDelay s * 2
                  else reconnectDelay s)
      else retry s) \<and>
   retry (sendMessage topic message now now' s) =
     (if connected s then retry s else retry (reconnect now now' s)) \<and>
   retry (onDisconnect reason now now' s) = retry (reconnect now now' s) \<and>
   retry (onConnect sessionPresent now now' s) =
     (if connected s then lastReconnectAttempt s
      else lastReconnectAttempt (reconnect now now' s), 1000)"
  by (simp add: retry_def connect_eq setServer_def setLwt_def reconnect_eq sendMessage_def
        onDisconnect_def onConnect_def io_defs Let_def)

theorem retry_state_frame_witness:
  "retry (connect sketch) = (0, 1000) \<and> retry (reconnect 1000 1001 sketch) = (1001, 2000) \<and>
   retry (onConnect True 1000 1001 (reconnect 1000 1001 sketch)) = (1001, 1000)"
  using retry_state_frame [of sketch "[]" 0 "[]" 1000 1001 "[]" 0 True]
    retry_state_frame [of "reconnect 1000 1001 sketch" "[]" 0 "[]" 1000 1001 "[]" 0 True]
  by (simp add: eval_defs retry_def)

text \<open>
  C9. \<^verbatim>\<open>setServer\<close> and \<^verbatim>\<open>setLwt\<close> check nothing and report
  nothing; they make no call on the client and print nothing. \<^verbatim>\<open>setServer\<close>
  stores every port as given. An address of fewer than 16 characters, the empty string
  included, is stored as given, followed by terminators up to the 16 characters of the
  array; of an address of 16 characters or more the array holds the first 16
  characters only and does not read back as the address. So the address reads back as
  given exactly when it has fewer than 16 characters. The same holds for
  \<^verbatim>\<open>setLwt\<close>, the topic and 64 characters.
\<close>

theorem set_short_strings:
  "(length (c_chars server) < 16 \<longrightarrow>
      setServer server port s
        = s\<lparr>mqtt_server := c_chars server @ replicate (16 - length (c_chars server)) NUL,
             mqtt_port := port\<rparr> \<and>
      c_str (mqtt_server (setServer server port s)) = Some (c_chars server)) \<and>
   mqtt_port (setServer server port s) = port \<and>
   calls_since s (setServer server port s) = [] \<and>
   printed_since s (setServer server port s) = [] \<and>
   (length (c_chars topic) < 64 \<longrightarrow>
      setLwt topic s
        = s\<lparr>lwt_topic := c_chars topic @ replicate (64 - length (c_chars topic)) NUL\<rparr> \<and>
      c_str (lwt_topic (setLwt topic s)) = Some (c_chars topic)) \<and>
   calls_since s (setLwt topic s) = [] \<and>
   printed_since s (setLwt topic s) = [] \<and>
   (16 \<le> length (c_chars server) \<longrightarrow>
      mqtt_server (setServer server port s) = take 16 (c_chars server) \<and>
      c_str (mqtt_server (setServer server port s)) \<noteq> Some (c_chars server)) \<and>
   (64 \<le> length (c_chars topic) \<longrightarrow>
      lwt_topic (setLwt topic s) = take 64 (c_chars topic) \<and>
      c_str (lwt_topic (setLwt topic s)) \<noteq> Some (c_chars topic)) \<and>
   (c_str (mqtt_server (setServer server port s)) = Some (c_chars server)
      \<longleftrightarrow> length (c_chars server) < 16) \<and>
   (c_str (lwt_topic (setLwt topic s)) = Some (c_chars topic)
      \<longleftrightarrow> length (c_chars topic) < 64)"
proof -
  have short: "length (c_chars src) < n \<Longrightarrow> c_str (strncpy src n) = Some (c_chars src)"
    and long: "n \<le> length (c_chars src) \<Longrightarrow> strncpy src n = take n (c_chars src)"
    and long': "n \<le> length (c_chars src) \<Longrightarrow> c_str (strncpy src n) = None"
    for src n
    by (rule strncpy_short, assumption) (rule strncpy_long, assumption)+
  have iff: "c_str (strncpy src n) = Some (c_chars src) \<longleftrightarrow> length (c_chars src) < n"
    for src n
    using short [of src n] long' [of n src] by (cases "length (c_chars src) < n") simp_all
  show ?thesis
    using strncpy_short [of server 16] strncpy_short [of topic 64]
      long [of 16 server] long [of 64 topic] long' [of 16 server] long' [of 64 topic]
      iff [of server 16] iff [of topic 64]
    by (simp add: setServer_def setLwt_def calls_since_def printed_since_def)
qed

theorem set_short_strings_witness:
  "length (c_chars ''10.0.0.5'') < 16 \<and>
   c_str (mqtt_server (setServer ''10.0.0.5'' (- 1) sketch)) = Some ''10.0.0.5'' \<and>
   mqtt_port (setServer ''10.0.0.5'' (- 1) sketch) = - 1 \<and>
   length (c_chars ''dev/status'') < 64 \<and>
   c_str (lwt_topic (setLwt ''dev/status'' sketch)) = Some ''dev/status'' \<and>
   length (c_chars []) < 16 \<and>
   c_str (mqtt_server (setServer [] 70000 sketch)) = Some [] \<and>
   16 \<le> length (c_chars ''test.mosquitto.org'') \<and>
   mqtt_server (setServer ''test.mosquitto.org'' 1883 sketch) = ''test.mosquitto.o'' \<and>
   c_str (mqtt_server (setServer ''test.mosquitto.org'' 1883 sketch))
     \<noteq> Some ''test.mosquitto.org'' \<and>
   64 \<le> length (c_chars (replicate 65 CHR ''t'')) \<and>
   lwt_topic (setLwt (replicate 65 CHR ''t'') sketch) = replicate 64 CHR ''t'' \<and>
   c_str (lwt_topic (setLwt (replicate 65 CHR ''t'') sketch)) \<noteq> Some (replicate 65 CHR ''t'')"
  using set_short_strings [of "''10.0.0.5''" "- 1" sketch "''dev/status''"]
    set_short_strings [of "[]" 70000 sketch "''dev/status''"]
    set_short_strings [of "''test.mosquitto.org''" 1883 sketch "replicate 65 CHR ''t''"]
  by (simp add: str_defs numeral_eq_Suc)

text \<open>
  An address of 18 characters is not stored as given: the array holds its first 16
  characters, and read back as a string it is not the address.
\<close>

theorem setServer_truncates_counterexample:
  "mqtt_server (setServer ''broker.example.com'' 1883 sketch) = ''broker.example.c'' \<and>
   c_str (mqtt_server (setServer ''broker.example.com'' 1883 sketch))
     \<noteq> Some ''broker.example.com''"
  by (simp add: setServer_def strncpy_def c_chars_def c_str_def NUL_def)

text \<open>
  C10. When \<^verbatim>\<open>setServer\<close> is given an address of 16 characters or more, the
  array \<^verbatim>\<open>mqtt_server[16]\<close> receives its first 16 characters and no terminator,
  so that reading the array as a string is not defined; the same holds for
  \<^verbatim>\<open>setLwt\<close>, a topic of 64 characters or more and \<^verbatim>\<open>lwt_topic[64]\<close>.
\<close>

theorem long_string_not_terminated:
  "(16 \<le> length (c_chars server) \<longrightarrow>
      mqtt_server (setServer server port s) = take 16 (c_chars server) \<and>
      length (mqtt_server (setServer server port s)) = 16 \<and>
      NUL \<notin> set (mqtt_server (setServer server port s)) \<and>
      c_str (mqtt_server (setServer server port s)) = None) \<and>
   (64 \<le> length (c_chars topic) \<longrightarrow>
      lwt_topic (setLwt topic s) = take 64 (c_chars topic) \<and>
      length (lwt_topic (setLwt topic s)) = 64 \<and>
      NUL \<notin> set (lwt_topic (setLwt topic s)) \<and>
      c_str (lwt_topic (setLwt topic s)) = None)"
  using strncpy_long [of 16 server] strncpy_long [of 64 topic]
  by (simp add: setServer_def setLwt_def length_strncpy)

text \<open>
  The host name of the usage example in MqttManager.cpp has exactly 16 characters.
\<close>

theorem long_string_not_terminated_witness:
  "16 \<le> length (c_chars ''mqtt.example.com'') \<and>
   mqtt_server (setServer ''mqtt.example.com'' 1883 sketch) = ''mqtt.example.com'' \<and>
   c_str (mqtt_server (setServer ''mqtt.example.com'' 1883 sketch)) = None \<and>
   64 \<le> length (c_chars (replicate 70 CHR ''a'')) \<and>
   lwt_topic (setLwt (replicate 70 CHR ''a'') sketch) = replicate 64 CHR ''a'' \<and>
   c_str (lwt_topic (setLwt (replicate 70 CHR ''a'') sketch)) = None"
  using long_string_not_terminated [of "''mqtt.example.com''" 1883 sketch "replicate 70 CHR ''a''"]
  by (simp add: str_defs numeral_eq_Suc)

end
